theory Spec2Isabelle
  imports Complex_Main "HOL-Library.Sublist" "HOL-Library.Word"
begin

unbundle bit_operations_syntax

section \<open>Content-drift monitoring function (src/unnamed/part\_000)\<close>

text \<open>
  The monitoring edge function of the repository is embedded function by function.
  Strings are lists of code units in the range U+0000 .. U+00FF (one \<open>char\<close> per code
  unit); timestamps are integers, the milliseconds since the epoch that \<open>Date.now()\<close>
  returns; the wall clock is a sequence of readings \<open>clock :: nat \<Rightarrow> int\<close> together with
  the number of readings taken so far, which every function that reads the clock takes and
  returns. Object literals that are only logged or serialised with \<open>JSON.stringify\<close> are
  values of the datatype \<open>json\<close>; the typed interfaces of the source are records.
\<close>

subsection \<open>String primitives of the platform\<close>

text \<open>The class \<open>\s\<close> of a JavaScript regular expression, restricted to U+0000 .. U+00FF:
  tab, line feed, vertical tab, form feed, carriage return, space, no-break space.\<close>

definition isWhiteSpace :: "char \<Rightarrow> bool" where
  "isWhiteSpace c = (of_char c \<in> set [9, 10, 11, 12, 13, 32, 160 :: nat])"

text \<open>\<open>String.prototype.toLowerCase\<close> on U+0000 .. U+00FF: the letters A .. Z and
  U+00C0 .. U+00DE except the multiplication sign U+00D7 move up by 32.\<close>

definition toLowerCase_char :: "char \<Rightarrow> char" where
  "toLowerCase_char c =
     (let n = (of_char c :: nat)
      in if (65 \<le> n \<and> n \<le> 90) \<or> (192 \<le> n \<and> n \<le> 222 \<and> n \<noteq> 215)
         then char_of (n + 32) else c)"

definition toLowerCase :: "string \<Rightarrow> string" where
  "toLowerCase s = map toLowerCase_char s"

text \<open>\<open>s.replace(/\s+/g, ' ')\<close>: every maximal run of white space becomes one space.
  The flag says whether the previous code unit belonged to a run.\<close>

fun collapseRuns :: "bool \<Rightarrow> string \<Rightarrow> string" where
  "collapseRuns inRun [] = []"
| "collapseRuns inRun (c # cs) =
     (if isWhiteSpace c
      then (if inRun then collapseRuns True cs else CHR '' '' # collapseRuns True cs)
      else c # collapseRuns False cs)"

definition replaceWhitespace :: "string \<Rightarrow> string" where
  "replaceWhitespace s = collapseRuns False s"

text \<open>\<open>s.split(sep)\<close> for a separator of one code unit: the pieces between the
  separators, empty pieces included; the empty string gives one empty piece.\<close>

function split :: "char \<Rightarrow> string \<Rightarrow> string list" where
  "split sep s =
     takeWhile (\<lambda>c. c \<noteq> sep) s #
       (case dropWhile (\<lambda>c. c \<noteq> sep) s of [] \<Rightarrow> [] | _ # rest \<Rightarrow> split sep rest)"
  by pat_completeness auto
termination
proof (relation "measure (\<lambda>(sep, s). length s)")
  show "wf (measure (\<lambda>(sep, s). length s))" by simp
next
  fix sep :: char and s :: string and c rest
  assume "dropWhile (\<lambda>c. c \<noteq> sep) s = c # rest"
  then have "Suc (length rest) \<le> length s"
    using length_dropWhile_le [of "\<lambda>c. c \<noteq> sep" s] by simp
  then show "((sep, rest), (sep, s)) \<in> measure (\<lambda>(sep, s). length s)" by simp
qed

text \<open>\<open>s.includes(w)\<close>: \<open>w\<close> occurs in \<open>s\<close> as a contiguous substring.\<close>

fun includes_str :: "string \<Rightarrow> string \<Rightarrow> bool" where
  "includes_str [] w = (w = [])"
| "includes_str (c # cs) w = (prefix w (c # cs) \<or> includes_str cs w)"

text \<open>Decimal rendering of a number in a template literal.\<close>

definition digit_char :: "int \<Rightarrow> char" where
  "digit_char d = ''0123456789'' ! nat d"

function digits :: "int \<Rightarrow> string" where
  "digits n = (if n < 10 then [digit_char n] else digits (n div 10) @ [digit_char (n mod 10)])"
  by pat_completeness auto
termination
  by (relation "measure nat") auto

definition show_int :: "int \<Rightarrow> string" where
  "show_int n = (if n < 0 then CHR ''-'' # digits (- n) else digits n)"

text \<open>\<open>s.padStart(n, '0')\<close>.\<close>

definition padStart0 :: "nat \<Rightarrow> string \<Rightarrow> string" where
  "padStart0 n s = replicate (n - length s) (CHR ''0'') @ s"

subsection \<open>\<open>Date.prototype.toISOString\<close>\<close>

text \<open>The proleptic Gregorian date of a day number counted from 1970-01-01.\<close>

definition civil_from_days :: "int \<Rightarrow> int \<times> int \<times> int" where
  "civil_from_days days =
     (let z = days + 719468;
          era = z div 146097;
          doe = z - era * 146097;
          yoe = (doe - doe div 1460 + doe div 36524 - doe div 146096) div 365;
          doy = doe - (365 * yoe + yoe div 4 - yoe div 100);
          mp = (5 * doy + 2) div 153;
          d = doy - (153 * mp + 2) div 5 + 1;
          m = (if mp < 10 then mp + 3 else mp - 9);
          y = yoe + era * 400 + (if m \<le> 2 then 1 else 0)
      in (y, m, d))"

definition iso_year :: "int \<Rightarrow> string" where
  "iso_year y =
     (if 0 \<le> y \<and> y \<le> 9999 then padStart0 4 (digits y)
      else (if y < 0 then CHR ''-'' else CHR ''+'') # padStart0 6 (digits (abs y)))"

text \<open>\<open>new Date(t).toISOString()\<close> for a time value \<open>t\<close> within the range of
  \<open>Date\<close> (at most 8.64e15 in absolute value, which every reading of a clock is).\<close>

definition toISOString :: "int \<Rightarrow> string" where
  "toISOString t =
     (let (y, m, d) = civil_from_days (t div 86400000);
          ms = t mod 86400000
      in iso_year y @ ''-'' @ padStart0 2 (digits m) @ ''-'' @ padStart0 2 (digits d) @ ''T'' @
         padStart0 2 (digits (ms div 3600000)) @ '':'' @
         padStart0 2 (digits (ms div 60000 mod 60)) @ '':'' @
         padStart0 2 (digits (ms div 1000 mod 60)) @ ''.'' @
         padStart0 3 (digits (ms mod 1000)) @ ''Z'')"

subsection \<open>JSON values\<close>

text \<open>A value as \<open>JSON.parse\<close> returns it or as \<open>JSON.stringify\<close> receives it. The
  fields of an object are an association list in insertion order with distinct keys; a
  property whose value is \<open>undefined\<close> is absent, as in the serialised text.\<close>

datatype json =
    JNull
  | JBool bool
  | JNum rat
  | JStr string
  | JArr "json list"
  | JObj "(string \<times> json) list"

text \<open>Reading the property \<open>k\<close> of a value that is not \<open>null\<close>; \<open>None\<close> is
  \<open>undefined\<close>. The function is used for the names \<open>websiteUrl\<close>, \<open>pageUrls\<close>,
  \<open>frequency\<close> and for the keys of the objects built here, which no primitive value
  and no array has.\<close>

fun getProp :: "json \<Rightarrow> string \<Rightarrow> json option" where
  "getProp (JObj fields) k = map_of fields k"
| "getProp _ k = None"

text \<open>The values that \<open>!v\<close> does not negate to \<open>true\<close>.\<close>

fun truthy :: "json option \<Rightarrow> bool" where
  "truthy None = False"
| "truthy (Some JNull) = False"
| "truthy (Some (JBool b)) = b"
| "truthy (Some (JNum n)) = (n \<noteq> 0)"
| "truthy (Some (JStr s)) = (s \<noteq> [])"
| "truthy (Some (JArr xs)) = True"
| "truthy (Some (JObj fields)) = True"

fun isArray :: "json option \<Rightarrow> bool" where
  "isArray (Some (JArr xs)) = True"
| "isArray _ = False"

subsection \<open>\<open>JSON.stringify\<close> of the scraped metadata\<close>

definition dquote :: char where
  "dquote = CHR 0x22"

definition backslash :: char where
  "backslash = CHR 0x5C"

definition hexdigit :: "nat \<Rightarrow> char" where
  "hexdigit n = ''0123456789abcdef'' ! n"

text \<open>The escape of one code unit inside a JSON string.\<close>

definition json_escape :: "char \<Rightarrow> string" where
  "json_escape c =
     (let n = (of_char c :: nat)
      in if c = dquote then [backslash, dquote]
         else if c = backslash then [backslash, backslash]
         else if n = 8 then [backslash, CHR ''b'']
         else if n = 9 then [backslash, CHR ''t'']
         else if n = 10 then [backslash, CHR ''n'']
         else if n = 12 then [backslash, CHR ''f'']
         else if n = 13 then [backslash, CHR ''r'']
         else if n < 32 then [backslash, CHR ''u'', CHR ''0'', CHR ''0'',
                                hexdigit (n div 16), hexdigit (n mod 16)]
         else [c])"

definition json_quote :: "string \<Rightarrow> string" where
  "json_quote s = dquote # concat (map json_escape s) @ [dquote]"

record page_metadata =
  title :: string
  description :: string

definition stringify_metadata :: "page_metadata \<Rightarrow> string" where
  "stringify_metadata metadata =
     ''{'' @ json_quote ''title'' @ '':'' @ json_quote (title metadata) @ '','' @
     json_quote ''description'' @ '':'' @ json_quote (description metadata) @ ''}''"

subsection \<open>\<open>TextEncoder\<close> and SHA-256\<close>

type_synonym byte = "8 word"
type_synonym w32 = "32 word"

text \<open>UTF-8 of a code unit in U+0000 .. U+00FF.\<close>

definition utf8_char :: "char \<Rightarrow> byte list" where
  "utf8_char c =
     (let n = (of_char c :: nat)
      in if n < 128 then [word_of_nat n]
         else [word_of_nat (192 + n div 64), word_of_nat (128 + n mod 64)])"

definition encode :: "string \<Rightarrow> byte list" where
  "encode s = concat (map utf8_char s)"

definition rotr :: "nat \<Rightarrow> w32 \<Rightarrow> w32" where
  "rotr n x = word_rotr n x"

definition Ch :: "w32 \<Rightarrow> w32 \<Rightarrow> w32 \<Rightarrow> w32" where
  "Ch x y z = (x AND y) XOR (NOT x AND z)"

definition Maj :: "w32 \<Rightarrow> w32 \<Rightarrow> w32 \<Rightarrow> w32" where
  "Maj x y z = (x AND y) XOR (x AND z) XOR (y AND z)"

definition Sigma0 :: "w32 \<Rightarrow> w32" where
  "Sigma0 x = rotr 2 x XOR rotr 13 x XOR rotr 22 x"

definition Sigma1 :: "w32 \<Rightarrow> w32" where
  "Sigma1 x = rotr 6 x XOR rotr 11 x XOR rotr 25 x"

definition sigma0 :: "w32 \<Rightarrow> w32" where
  "sigma0 x = rotr 7 x XOR rotr 18 x XOR drop_bit 3 x"

definition sigma1 :: "w32 \<Rightarrow> w32" where
  "sigma1 x = rotr 17 x XOR rotr 19 x XOR drop_bit 10 x"

text \<open>The round constants, eight to a row.\<close>

definition K256 :: "w32 list" where
  "K256 =
     [0x428a2f98, 0x71374491, 0xb5c0fbcf, 0xe9b5dba5, 0x3956c25b, 0x59f111f1, 0x923f82a4, 0xab1c5ed5] @
     [0xd807aa98, 0x12835b01, 0x243185be, 0x550c7dc3, 0x72be5d74, 0x80deb1fe, 0x9bdc06a7, 0xc19bf174] @
     [0xe49b69c1, 0xefbe4786, 0x0fc19dc6, 0x240ca1cc, 0x2de92c6f, 0x4a7484aa, 0x5cb0a9dc, 0x76f988da] @
     [0x983e5152, 0xa831c66d, 0xb00327c8, 0xbf597fc7, 0xc6e00bf3, 0xd5a79147, 0x06ca6351, 0x14292967] @
     [0x27b70a85, 0x2e1b2138, 0x4d2c6dfc, 0x53380d13, 0x650a7354, 0x766a0abb, 0x81c2c92e, 0x92722c85] @
     [0xa2bfe8a1, 0xa81a664b, 0xc24b8b70, 0xc76c51a3, 0xd192e819, 0xd6990624, 0xf40e3585, 0x106aa070] @
     [0x19a4c116, 0x1e376c08, 0x2748774c, 0x34b0bcb5, 0x391c0cb3, 0x4ed8aa4a, 0x5b9cca4f, 0x682e6ff3] @
     [0x748f82ee, 0x78a5636f, 0x84c87814, 0x8cc70208, 0x90befffa, 0xa4506ceb, 0xbef9a3f7, 0xc67178f2]"

type_synonym sha_state = "w32 \<times> w32 \<times> w32 \<times> w32 \<times> w32 \<times> w32 \<times> w32 \<times> w32"

definition H256 :: sha_state where
  "H256 = (0x6a09e667, 0xbb67ae85, 0x3c6ef372, 0xa54ff53a,
           0x510e527f, 0x9b05688c, 0x1f83d9ab, 0x5be0cd19)"

fun sha_round :: "sha_state \<Rightarrow> w32 \<times> w32 \<Rightarrow> sha_state" where
  "sha_round (a, b, c, d, e, f, g, h) (k, w) =
     (let T1 = h + Sigma1 e + Ch e f g + k + w;
          T2 = Sigma0 a + Maj a b c
      in (T1 + T2, a, b, c, d + T1, e, f, g))"

text \<open>The message schedule: \<open>schedule w n\<close> extends the words of a block by \<open>n\<close> more.\<close>

fun schedule :: "w32 list \<Rightarrow> nat \<Rightarrow> w32 list" where
  "schedule w 0 = w"
| "schedule w (Suc n) =
     (let ws = schedule w n; i = length ws
      in ws @ [sigma1 (ws ! (i - 2)) + ws ! (i - 7) + sigma0 (ws ! (i - 15)) + ws ! (i - 16)])"

fun be32 :: "byte list \<Rightarrow> w32 list" where
  "be32 (b0 # b1 # b2 # b3 # bs) =
     (push_bit 24 (ucast b0) OR push_bit 16 (ucast b1) OR push_bit 8 (ucast b2) OR ucast b3)
       # be32 bs"
| "be32 _ = []"

fun sha_add :: "sha_state \<Rightarrow> sha_state \<Rightarrow> sha_state" where
  "sha_add (a, b, c, d, e, f, g, h) (a', b', c', d', e', f', g', h') =
     (a + a', b + b', c + c', d + d', e + e', f + f', g + g', h + h')"

definition compress :: "sha_state \<Rightarrow> byte list \<Rightarrow> sha_state" where
  "compress st block = sha_add st (foldl sha_round st (zip K256 (schedule (be32 block) 48)))"

text \<open>Padding: the bit 1, zeros up to 56 modulo 64 bytes, the length in bits on 64 bits.\<close>

definition sha_pad :: "byte list \<Rightarrow> byte list" where
  "sha_pad m =
     (let l = length m; bits = (8 * word_of_nat l :: 64 word)
      in m @ [0x80] @ replicate ((119 - l mod 64) mod 64) 0 @
         map (\<lambda>i. ucast (drop_bit (8 * (7 - i)) bits)) [0 ..< 8])"

fun blocks :: "nat \<Rightarrow> byte list \<Rightarrow> byte list list" where
  "blocks 0 bs = []"
| "blocks (Suc n) bs = take 64 bs # blocks n (drop 64 bs)"

definition word_bytes :: "w32 \<Rightarrow> byte list" where
  "word_bytes w = [ucast (drop_bit 24 w), ucast (drop_bit 16 w), ucast (drop_bit 8 w), ucast w]"

fun state_bytes :: "sha_state \<Rightarrow> byte list" where
  "state_bytes (a, b, c, d, e, f, g, h) = concat (map word_bytes [a, b, c, d, e, f, g, h])"

text \<open>\<open>crypto.subtle.digest('SHA-256', data)\<close>.\<close>

definition sha256 :: "byte list \<Rightarrow> byte list" where
  "sha256 m =
     (let p = sha_pad m in state_bytes (foldl compress H256 (blocks (length p div 64) p)))"

text \<open>\<open>b.toString(16).padStart(2, '0')\<close> of one byte.\<close>

definition hex2 :: "byte \<Rightarrow> string" where
  "hex2 b = padStart0 2 (if unat b < 16 then [hexdigit (unat b)]
                         else [hexdigit (unat b div 16), hexdigit (unat b mod 16)])"

subsection \<open>Data model\<close>

datatype error = Error (err_name: string) (message: string)

datatype RecommendationType = Seo | Llmo | Content

datatype Frequency = Daily | Weekly | Monthly

record ContentRecommendation =
  rec_id :: string
  rec_type :: RecommendationType
  originalContent :: string
  recommendedContent :: string
  applied :: bool

record MonitoringTarget =
  target_id :: string
  userId :: string
  target_websiteUrl :: string
  target_pageUrl :: string
  lastContentHash :: string
  recommendations :: "ContentRecommendation list"
  checkFrequency :: Frequency
  lastChecked :: string

record MonitoringResult =
  targetId :: string
  result_websiteUrl :: string
  result_pageUrl :: string
  contentChanged :: bool
  recommendationsImplemented :: bool
  newContentHash :: string
  changesDetected :: "string list"
  implementedRecommendations :: "string list"
  checkTimestamp :: string

text \<open>A \<open>Response\<close>: its status and the value given to \<open>JSON.stringify\<close> for its body
  (the headers are the same constant pair on every path).\<close>

record Response =
  status :: nat
  body_json :: json

subsection \<open>\<open>generateContentHash\<close> and \<open>isRecommendationImplemented\<close>\<close>

definition generateContentHash :: "page_metadata \<Rightarrow> string \<Rightarrow> string" where
  "generateContentHash metadata content =
     (let combinedContent = stringify_metadata metadata @ content;
          data = encode combinedContent;
          hashArray = sha256 data
      in concat (map hex2 hashArray))"

text \<open>The quotient of the two counts is a rational number here. The source divides two
  doubles and compares the result with the double nearest to 0.7; the two comparisons agree
  for every suggested text of less than \<open>2 ^ 49\<close> code units (see \<open>matcher_in_doubles\<close>).\<close>

definition isRecommendationImplemented :: "string \<Rightarrow> ContentRecommendation \<Rightarrow> bool" where
  "isRecommendationImplemented content recommendation =
     (let normalizedContent = replaceWhitespace (toLowerCase content);
          normalizedRecommendation =
            replaceWhitespace (toLowerCase (recommendedContent recommendation));
          words = split (CHR '' '') normalizedRecommendation;
          matchedWords = filter (\<lambda>word. includes_str normalizedContent word) words;
          matchPercentage = (of_nat (length matchedWords) / of_nat (length words) :: rat)
      in matchPercentage \<ge> 7 / 10)"

subsection \<open>The quotient in double arithmetic\<close>




subsection \<open>\<open>checkWebsiteChanges\<close>\<close>

text \<open>The loop over \<open>target.recommendations\<close>; the accumulator is the pair of
  \<open>implementedRecommendations\<close> and \<open>recommendationsImplemented\<close>.\<close>

fun checkRecommendations ::
  "string \<Rightarrow> ContentRecommendation list \<Rightarrow> string list \<times> bool \<Rightarrow> string list \<times> bool" where
  "checkRecommendations markdown [] acc = acc"
| "checkRecommendations markdown (recommendation # rest) (ids, implemented) =
     (if isRecommendationImplemented markdown recommendation
      then checkRecommendations markdown rest (ids @ [rec_id recommendation], True)
      else checkRecommendations markdown rest (ids, implemented))"

text \<open>The body of \<open>checkWebsiteChanges\<close> for a scraped page \<open>(metadata, markdown)\<close>. No
  statement of its \<open>try\<close> block throws, so the result is always \<open>Inr\<close>; the only clock
  reading is the one of \<open>checkTimestamp\<close>. The function assigns to no field of \<open>target\<close>.\<close>

definition checkWebsiteChanges_on ::
  "page_metadata \<Rightarrow> string \<Rightarrow> (nat \<Rightarrow> int) \<Rightarrow> MonitoringTarget \<Rightarrow> nat
     \<Rightarrow> (error + MonitoringResult) \<times> nat" where
  "checkWebsiteChanges_on metadata markdown clock target k =
     (let currentContentHash = generateContentHash metadata markdown;
          changed = (currentContentHash \<noteq> lastContentHash target);
          (implemented_ids, implemented) =
             (if changed then checkRecommendations markdown (recommendations target) ([], False)
              else ([], False));
          changes =
             (if changed
              then [''Content hash changed''] @
                   (if title metadata \<noteq> lastContentHash target
                    then [''Title tag modified''] else []) @
                   (if description metadata \<noteq> lastContentHash target
                    then [''Meta description modified''] else [])
              else [])
      in (Inr \<lparr> targetId = target_id target,
                result_websiteUrl = target_websiteUrl target,
                result_pageUrl = target_pageUrl target,
                contentChanged = changed,
                recommendationsImplemented = implemented,
                newContentHash = currentContentHash,
                changesDetected = changes,
                implementedRecommendations = implemented_ids,
                checkTimestamp = toISOString (clock k) \<rparr>,
          Suc k))"

text \<open>The mock scraping of the source.\<close>

definition mock_metadata :: page_metadata where
  "mock_metadata = \<lparr> title = ''Sample Page Title'', description = ''Sample page description'' \<rparr>"

definition mock_markdown :: string where
  "mock_markdown = ''Sample page content for monitoring demonstration''"

definition checkWebsiteChanges ::
  "(nat \<Rightarrow> int) \<Rightarrow> MonitoringTarget \<Rightarrow> nat \<Rightarrow> (error + MonitoringResult) \<times> nat" where
  "checkWebsiteChanges = checkWebsiteChanges_on mock_metadata mock_markdown"

subsection \<open>Notifications\<close>

text \<open>Each function returns the object that the source builds and logs as sent.\<close>

definition sendImplementationNotification :: "MonitoringTarget \<Rightarrow> MonitoringResult \<Rightarrow> json" where
  "sendImplementationNotification target result =
     JObj [(''type'', JStr ''recommendation_implemented''),
           (''websiteUrl'', JStr (target_websiteUrl target)),
           (''pageUrl'', JStr (target_pageUrl target)),
           (''implementedRecommendations'', JArr (map JStr (implementedRecommendations result))),
           (''timestamp'', JStr (checkTimestamp result)),
           (''message'', JStr (''Great news! Your SEO/LLMO recommendations have been implemented on ''
                                 @ target_pageUrl target))]"

definition sendContentChangeAlert :: "MonitoringTarget \<Rightarrow> MonitoringResult \<Rightarrow> json" where
  "sendContentChangeAlert target result =
     JObj [(''type'', JStr ''content_change_alert''),
           (''websiteUrl'', JStr (target_websiteUrl target)),
           (''pageUrl'', JStr (target_pageUrl target)),
           (''changesDetected'', JArr (map JStr (changesDetected result))),
           (''missedRecommendations'',
              JNum (of_nat (length (filter (\<lambda>r. \<not> applied r) (recommendations target))))),
           (''timestamp'', JStr (checkTimestamp result)),
           (''message'', JStr (''Content was updated on '' @ target_pageUrl target @
              '' but SEO/LLMO recommendations were not implemented. Consider applying the pending optimizations.''))]"

subsection \<open>\<open>runDailyMonitoring\<close>\<close>

text \<open>The state of the loop over the targets: the \<open>results\<close> array, the notifications
  logged as sent, the target objects as the iterations leave them, and the number of clock
  readings taken.\<close>

record monitor_state =
  results :: "MonitoringResult list"
  sent :: "json list"
  processed :: "MonitoringTarget list"
  ticks :: nat

definition initial_state :: "nat \<Rightarrow> monitor_state" where
  "initial_state k = \<lparr> results = [], sent = [], processed = [], ticks = k \<rparr>"

text \<open>The result that the \<open>catch\<close> block records for a target.\<close>

definition failedResult :: "MonitoringTarget \<Rightarrow> error \<Rightarrow> string \<Rightarrow> MonitoringResult" where
  "failedResult target err now =
     \<lparr> targetId = target_id target,
       result_websiteUrl = target_websiteUrl target,
       result_pageUrl = target_pageUrl target,
       contentChanged = False,
       recommendationsImplemented = False,
       newContentHash = lastContentHash target,
       changesDetected = [''Error: '' @ message err],
       implementedRecommendations = [],
       checkTimestamp = now \<rparr>"

text \<open>The two \<open>if\<close> statements that follow \<open>results.push(result)\<close>.\<close>

definition notify :: "MonitoringTarget \<Rightarrow> MonitoringResult \<Rightarrow> json list" where
  "notify target result =
     (if recommendationsImplemented result
      then [sendImplementationNotification target result] else []) @
     (if contentChanged result \<and> \<not> recommendationsImplemented result
      then [sendContentChangeAlert target result] else [])"

text \<open>One iteration of the loop, for any per-target check \<open>check\<close> (which may throw: the
  source calls \<open>checkWebsiteChanges\<close>). Neither branch assigns to a field of the target or
  of one of its recommendations, so the target is left as it was.\<close>

definition monitorTarget ::
  "(MonitoringTarget \<Rightarrow> nat \<Rightarrow> (error + MonitoringResult) \<times> nat) \<Rightarrow> (nat \<Rightarrow> int)
     \<Rightarrow> monitor_state \<Rightarrow> MonitoringTarget \<Rightarrow> monitor_state" where
  "monitorTarget check clock st target =
     (case check target (ticks st) of
        (Inr result, k) \<Rightarrow>
          st \<lparr> results := results st @ [result],
               sent := sent st @ notify target result,
               processed := processed st @ [target],
               ticks := k \<rparr>
      | (Inl err, k) \<Rightarrow>
          st \<lparr> results := results st @ [failedResult target err (toISOString (clock k))],
               processed := processed st @ [target],
               ticks := Suc k \<rparr>)"

text \<open>\<open>scheduleNextRun\<close> reads the clock once and logs the time of the next run.\<close>

definition scheduleNextRun :: "(nat \<Rightarrow> int) \<Rightarrow> nat \<Rightarrow> string \<times> nat" where
  "scheduleNextRun clock k = (toISOString (clock k + 24 * 60 * 60 * 1000), Suc k)"

definition result_json :: "MonitoringResult \<Rightarrow> json" where
  "result_json r =
     JObj [(''targetId'', JStr (targetId r)),
           (''websiteUrl'', JStr (result_websiteUrl r)),
           (''pageUrl'', JStr (result_pageUrl r)),
           (''contentChanged'', JBool (contentChanged r)),
           (''recommendationsImplemented'', JBool (recommendationsImplemented r)),
           (''newContentHash'', JStr (newContentHash r)),
           (''changesDetected'', JArr (map JStr (changesDetected r))),
           (''implementedRecommendations'', JArr (map JStr (implementedRecommendations r))),
           (''checkTimestamp'', JStr (checkTimestamp r))]"

definition summary_json :: "MonitoringResult list \<Rightarrow> json" where
  "summary_json rs =
     JObj [(''totalChecked'', JNum (of_nat (length rs))),
           (''contentChanges'', JNum (of_nat (length (filter contentChanged rs)))),
           (''recommendationsImplemented'',
              JNum (of_nat (length (filter recommendationsImplemented rs))))]"

text \<open>\<open>runDailyMonitoring\<close> from the loop on, for any list of targets and any per-target
  check: the response, and the state that the pass leaves behind (the results, the
  notifications logged as sent, the targets after the pass, the clock readings taken).\<close>

definition runDailyMonitoring_on ::
  "(MonitoringTarget \<Rightarrow> nat \<Rightarrow> (error + MonitoringResult) \<times> nat) \<Rightarrow> (nat \<Rightarrow> int)
     \<Rightarrow> MonitoringTarget list \<Rightarrow> nat \<Rightarrow> Response \<times> monitor_state" where
  "runDailyMonitoring_on check clock targets k =
     (let st = foldl (monitorTarget check clock) (initial_state k) targets;
          (nextRun, k1) = scheduleNextRun clock (ticks st)
      in (\<lparr> status = 200,
            body_json = JObj [(''success'', JBool True),
                              (''message'', JStr ''Daily monitoring completed''),
                              (''results'', JArr (map result_json (results st))),
                              (''summary'', summary_json (results st)),
                              (''timestamp'', JStr (toISOString (clock k1)))] \<rparr>,
          st \<lparr> ticks := Suc k1 \<rparr>))"

definition mockTargets :: "(nat \<Rightarrow> int) \<Rightarrow> nat \<Rightarrow> MonitoringTarget list \<times> nat" where
  "mockTargets clock k =
     ([\<lparr> target_id = ''target_001'',
         userId = ''user_123'',
         target_websiteUrl = ''https://example.com'',
         target_pageUrl = ''https://example.com/about'',
         lastContentHash = ''abc123def456'',
         recommendations =
           [\<lparr> rec_id = ''rec_001'',
               rec_type = Seo,
               originalContent = ''About us page'',
               recommendedContent = ''Learn about our company's mission, values, and expert team'',
               applied = False \<rparr>],
         checkFrequency = Daily,
         lastChecked = toISOString (clock k - 86400000) \<rparr>],
      Suc k)"

definition runDailyMonitoring :: "(nat \<Rightarrow> int) \<Rightarrow> nat \<Rightarrow> Response \<times> monitor_state" where
  "runDailyMonitoring clock k =
     (let (targets, k0) = mockTargets clock k
      in runDailyMonitoring_on (checkWebsiteChanges clock) clock targets k0)"

subsection \<open>\<open>getFrequencyMs\<close> and \<open>scheduleMonitoring\<close>\<close>

text \<open>The argument is the value found in the request, whatever its type; the \<open>switch\<close>
  compares it with the three strings by strict equality.\<close>

definition getFrequencyMs :: "json \<Rightarrow> int" where
  "getFrequencyMs frequency =
     (if frequency = JStr ''daily'' then 24 * 60 * 60 * 1000
      else if frequency = JStr ''weekly'' then 7 * 24 * 60 * 60 * 1000
      else if frequency = JStr ''monthly'' then 30 * 24 * 60 * 60 * 1000
      else 24 * 60 * 60 * 1000)"

text \<open>A property of an object literal: absent when its value is \<open>undefined\<close>.\<close>

fun optField :: "string \<Rightarrow> json option \<Rightarrow> (string \<times> json) list" where
  "optField k None = []"
| "optField k (Some v) = [(k, v)]"

text \<open>The callback of \<open>pageUrls.map\<close>: the target object for the page at \<open>index\<close>.
  It reads the clock three times, for \<open>id\<close>, for \<open>createdAt\<close> and for \<open>nextCheck\<close>;
  \<open>k\<close> clock readings were taken before.\<close>

definition makeTarget ::
  "(nat \<Rightarrow> int) \<Rightarrow> json option \<Rightarrow> json \<Rightarrow> json \<Rightarrow> nat \<Rightarrow> nat \<Rightarrow> json" where
  "makeTarget clock websiteUrl frequency pageUrl index k =
     JObj ([(''id'', JStr (''target_'' @ show_int (clock k) @ ''_'' @ show_int (int index)))] @
           optField ''websiteUrl'' websiteUrl @
           [(''pageUrl'', pageUrl),
            (''frequency'', frequency),
            (''createdAt'', JStr (toISOString (clock (k + 1)))),
            (''nextCheck'', JStr (toISOString (clock (k + 2) + getFrequencyMs frequency)))])"

text \<open>\<open>pageUrls.map((pageUrl, index) => ...)\<close> from index \<open>index\<close> on.\<close>

fun makeTargets ::
  "(nat \<Rightarrow> int) \<Rightarrow> json option \<Rightarrow> json \<Rightarrow> nat \<Rightarrow> json list \<Rightarrow> nat \<Rightarrow> json list \<times> nat" where
  "makeTargets clock websiteUrl frequency index [] k = ([], k)"
| "makeTargets clock websiteUrl frequency index (pageUrl # rest) k =
     (let target = makeTarget clock websiteUrl frequency pageUrl index k;
          (targets, k') = makeTargets clock websiteUrl frequency (Suc index) rest (k + 3)
      in (target # targets, k'))"

fun elements :: "json option \<Rightarrow> json list" where
  "elements (Some (JArr xs)) = xs"
| "elements _ = []"

text \<open>\<open>scheduleMonitoring\<close> on the value \<open>body\<close> that \<open>await req.json()\<close> returned.
  Destructuring \<open>null\<close> throws a \<open>TypeError\<close>, which the function does not catch.\<close>

definition scheduleMonitoring :: "(nat \<Rightarrow> int) \<Rightarrow> json \<Rightarrow> nat \<Rightarrow> (error + Response) \<times> nat" where
  "scheduleMonitoring clock body k =
     (if body = JNull
      then (Inl (Error ''TypeError''
                   ''Cannot destructure property 'websiteUrl' of 'body' as it is null.''), k)
      else
        let websiteUrl = getProp body ''websiteUrl'';
            pageUrls = getProp body ''pageUrls'';
            frequency = (case getProp body ''frequency'' of None \<Rightarrow> JStr ''daily'' | Some f \<Rightarrow> f)
        in if \<not> truthy websiteUrl \<or> \<not> truthy pageUrls \<or> \<not> isArray pageUrls
           then (Inr \<lparr> status = 400,
                       body_json = JObj [(''error'', JStr ''websiteUrl and pageUrls array are required'')] \<rparr>,
                 k)
           else
             let (targets, k') = makeTargets clock websiteUrl frequency 0 (elements pageUrls) k
             in (Inr \<lparr> status = 200,
                       body_json = JObj ([(''success'', JBool True),
                                     (''message'', JStr ''Monitoring scheduled successfully''),
                                     (''targets'', JArr targets)] @
                                    optField ''nextCheck''
                                      (case targets of [] \<Rightarrow> None
                                       | first # _ \<Rightarrow> getProp first ''nextCheck'')) \<rparr>,
                 k'))"

subsection \<open>\<open>getMonitoringStatus\<close> and the request handler\<close>

text \<open>\<open>getMonitoringStatus\<close> answers with mock data; it reads the clock five times.\<close>

definition getMonitoringStatus :: "(nat \<Rightarrow> int) \<Rightarrow> nat \<Rightarrow> Response \<times> nat" where
  "getMonitoringStatus clock k =
     (\<lparr> status = 200,
        body_json =
          JObj [(''success'', JBool True),
                (''data'',
                   JObj [(''totalTargets'', JNum 5),
                         (''activeMonitoring'', JNum 5),
                         (''lastCheck'', JStr (toISOString (clock k))),
                         (''nextCheck'', JStr (toISOString (clock (k + 1) + 24 * 60 * 60 * 1000))),
                         (''recentActivity'',
                            JArr [JObj [(''pageUrl'', JStr ''https://example.com/about''),
                                        (''action'', JStr ''Content changed''),
                                        (''timestamp'', JStr (toISOString (clock (k + 2) - 3600000))),
                                        (''recommendationsImplemented'', JBool True)],
                                  JObj [(''pageUrl'', JStr ''https://example.com/services''),
                                        (''action'', JStr ''Monitoring check completed''),
                                        (''timestamp'', JStr (toISOString (clock (k + 3) - 7200000))),
                                        (''recommendationsImplemented'', JBool False)]])]),
                (''timestamp'', JStr (toISOString (clock (k + 4))))] \<rparr>,
      k + 5)"

text \<open>A request: its method, the path of its URL, and what \<open>req.json()\<close> gives for its
  body (a \<open>SyntaxError\<close> when the body is not JSON text).\<close>

record Request =
  http_method :: string
  pathname :: string
  json_body :: "error + json"

text \<open>The handler given to \<open>serve\<close>. An exception of an endpoint is answered with status
  500. The answer to \<open>OPTIONS\<close> has no body, written \<open>JNull\<close> here.\<close>

definition handler :: "(nat \<Rightarrow> int) \<Rightarrow> Request \<Rightarrow> nat \<Rightarrow> Response \<times> nat" where
  "handler clock req k =
     (if http_method req = ''OPTIONS'' then (\<lparr> status = 200, body_json = JNull \<rparr>, k)
      else if pathname req = ''/monitor'' \<and> http_method req = ''POST''
      then (fst (runDailyMonitoring clock k), ticks (snd (runDailyMonitoring clock k)))
      else if pathname req = ''/schedule'' \<and> http_method req = ''POST''
      then (case json_body req of
              Inl err \<Rightarrow>
                (\<lparr> status = 500, body_json = JObj [(''error'', JStr ''Internal server error'')] \<rparr>, k)
            | Inr parsed \<Rightarrow>
                (case scheduleMonitoring clock parsed k of
                   (Inr res, k') \<Rightarrow> (res, k')
                 | (Inl err, k') \<Rightarrow>
                     (\<lparr> status = 500,
                        body_json = JObj [(''error'', JStr ''Internal server error'')] \<rparr>, k')))
      else if pathname req = ''/status'' \<and> http_method req = ''GET''
      then getMonitoringStatus clock k
      else (\<lparr> status = 404, body_json = JObj [(''error'', JStr ''Endpoint not found'')] \<rparr>, k))"

subsection \<open>The matcher as the specification words it\<close>



subsection \<open>The result recorded for a target\<close>

text \<open>What one iteration of the loop appends to \<open>results\<close> when it starts after \<open>k\<close>
  clock readings: the result of the check, or the result of the \<open>catch\<close> block.\<close>

definition recorded ::
  "(MonitoringTarget \<Rightarrow> nat \<Rightarrow> (error + MonitoringResult) \<times> nat) \<Rightarrow> (nat \<Rightarrow> int)
     \<Rightarrow> MonitoringTarget \<Rightarrow> nat \<Rightarrow> MonitoringResult" where
  "recorded check clock target k =
     (case check target k of
        (Inr result, k') \<Rightarrow> result
      | (Inl err, k') \<Rightarrow> failedResult target err (toISOString (clock k')))"

subsection \<open>Example inputs\<close>

text \<open>A clock that starts on 2023-11-14 at 22:13:20 UTC and advances by one second
  between two readings.\<close>

definition clock0 :: "nat \<Rightarrow> int" where
  "clock0 n = 1700000000000 + 1000 * int n"

text \<open>A target that was never checked.\<close>

definition firstRunTarget :: MonitoringTarget where
  "firstRunTarget =
     \<lparr> target_id = ''target_new'', userId = ''user_123'',
       target_websiteUrl = ''https://example.com'',
       target_pageUrl = ''https://example.com/new'',
       lastContentHash = [],
       recommendations = [],
       checkFrequency = Daily,
       lastChecked = ''2023-11-14T22:13:20.000Z'' \<rparr>"

text \<open>A target with a stored hash and two recommendations, the first one already applied.
  Both suggested texts occur in the page that the mock scraping returns.\<close>

definition reviewedTarget :: MonitoringTarget where
  "reviewedTarget =
     \<lparr> target_id = ''target_002'', userId = ''user_123'',
       target_websiteUrl = ''https://example.com'',
       target_pageUrl = ''https://example.com/services'',
       lastContentHash = ''abc123def456'',
       recommendations =
         [\<lparr> rec_id = ''rec_a'', rec_type = Seo, originalContent = ''Page'',
             recommendedContent = ''Sample page'', applied = True \<rparr>,
          \<lparr> rec_id = ''rec_b'', rec_type = Llmo, originalContent = ''Content'',
             recommendedContent = ''Page content for MONITORING'', applied = False \<rparr>],
       checkFrequency = Weekly,
       lastChecked = ''2023-11-07T22:13:20.000Z'' \<rparr>"

text \<open>A target whose check fails, and a per-target check that throws on its page and
  otherwise is \<open>checkWebsiteChanges\<close>.\<close>

definition brokenTarget :: MonitoringTarget where
  "brokenTarget =
     \<lparr> target_id = ''target_003'', userId = ''user_123'',
       target_websiteUrl = ''https://example.com'',
       target_pageUrl = ''https://example.com/broken'',
       lastContentHash = ''0f0f0f'',
       recommendations =
         [\<lparr> rec_id = ''rec_c'', rec_type = Content, originalContent = ''Old'',
             recommendedContent = ''Sample page'', applied = False \<rparr>],
       checkFrequency = Monthly,
       lastChecked = ''2023-10-15T22:13:20.000Z'' \<rparr>"

definition flakyCheck ::
  "(nat \<Rightarrow> int) \<Rightarrow> MonitoringTarget \<Rightarrow> nat \<Rightarrow> (error + MonitoringResult) \<times> nat" where
  "flakyCheck clock target k =
     (if target_pageUrl target = ''https://example.com/broken''
      then (Inl (Error ''Error'' ''fetch failed''), k)
      else checkWebsiteChanges clock target k)"

definition threeTargets :: "MonitoringTarget list" where
  "threeTargets = [reviewedTarget, brokenTarget, firstRunTarget]"



text \<open>A scheduling request for two pages, checked weekly.\<close>

definition weeklyRequest :: json where
  "weeklyRequest =
     JObj [(''websiteUrl'', JStr ''https://example.com''),
           (''pageUrls'', JArr [JStr ''https://example.com/a'', JStr ''https://example.com/b'']),
           (''frequency'', JStr ''weekly'')]"

text \<open>A target whose stored hash is the hash of the page that the mock scraping returns.\<close>

definition settledTarget :: MonitoringTarget where
  "settledTarget =
     \<lparr> target_id = ''target_004'', userId = ''user_123'',
       target_websiteUrl = ''https://example.com'',
       target_pageUrl = ''https://example.com/settled'',
       lastContentHash = ''57f4e6d6faf517e11fdad5c556e08399c7697358dba4fe1ac5c87a25e6a7f86d'',
       recommendations =
         [\<lparr> rec_id = ''rec_d'', rec_type = Seo, originalContent = ''Page'',
             recommendedContent = ''Sample page'', applied = False \<rparr>],
       checkFrequency = Daily,
       lastChecked = ''2023-11-13T22:13:20.000Z'' \<rparr>"

section \<open>Properties\<close>

subsection \<open>Strings and hashes\<close>

declare split.simps [simp del]

lemma split_not_Nil: "split sep s \<noteq> []"
  by (subst split.simps) simp

lemma split_Nil: "split sep [] = [[]]"
  by (subst split.simps) simp

lemma includes_str_Nil: "includes_str s []"
  by (induction s) simp_all

text \<open>\<open>includes_str\<close> is the contiguous-substring relation of the library.\<close>

lemma includes_str_sublist: "includes_str s w = sublist w s"
  by (induction s) (auto simp: sublist_Cons_right)

lemma length_hex2: "length (hex2 b) = 2"
  by (simp add: hex2_def padStart0_def)

lemma length_concat_hex2: "length (concat (map hex2 bs)) = 2 * length bs"
  by (induction bs) (simp_all add: length_hex2)

lemma length_state_bytes: "length (state_bytes st) = 32"
  by (cases st rule: state_bytes.cases) (simp add: word_bytes_def)

lemma length_sha256: "length (sha256 m) = 32"
  by (simp add: sha256_def Let_def length_state_bytes)

text \<open>A content hash is 64 hexadecimal digits, whatever the page.\<close>

lemma length_generateContentHash: "length (generateContentHash metadata content) = 64"
  by (simp add: generateContentHash_def Let_def length_concat_hex2 length_sha256)

lemma generateContentHash_not_empty: "generateContentHash metadata content \<noteq> []"
  using length_generateContentHash [of metadata content] by auto

lemma generateContentHash_neq_short:
  "length h \<noteq> 64 \<Longrightarrow> generateContentHash metadata content \<noteq> h"
  using length_generateContentHash [of metadata content] by auto

text \<open>The digest of the test vector \<open>abc\<close>, and the hash of the page that the mock
  scraping returns.\<close>

lemma sha256_abc:
  "concat (map hex2 (sha256 (encode ''abc'')))
     = ''ba7816bf8f01cfea414140de5dae2223b00361a396177a9cb410ff61f20015ad''"
  by code_simp

lemma mock_hash:
  "generateContentHash mock_metadata mock_markdown
     = ''57f4e6d6faf517e11fdad5c556e08399c7697358dba4fe1ac5c87a25e6a7f86d''"
  by code_simp

subsection \<open>The per-target check\<close>

lemma checkRecommendations_acc:
  "checkRecommendations markdown rs (ids, flag) =
     (ids @ map rec_id (filter (isRecommendationImplemented markdown) rs),
      flag \<or> (filter (isRecommendationImplemented markdown) rs \<noteq> []))"
  by (induction rs arbitrary: ids flag) simp_all

text \<open>The result of the check in closed form.\<close>

lemma checkWebsiteChanges_on_eq:
  "checkWebsiteChanges_on metadata markdown clock target k =
     (Inr \<lparr> targetId = target_id target,
            result_websiteUrl = target_websiteUrl target,
            result_pageUrl = target_pageUrl target,
            contentChanged = (generateContentHash metadata markdown \<noteq> lastContentHash target),
            recommendationsImplemented =
              (generateContentHash metadata markdown \<noteq> lastContentHash target \<and>
               filter (isRecommendationImplemented markdown) (recommendations target) \<noteq> []),
            newContentHash = generateContentHash metadata markdown,
            changesDetected =
              (if generateContentHash metadata markdown \<noteq> lastContentHash target
               then [''Content hash changed''] @
                    (if title metadata \<noteq> lastContentHash target
                     then [''Title tag modified''] else []) @
                    (if description metadata \<noteq> lastContentHash target
                     then [''Meta description modified''] else [])
               else []),
            implementedRecommendations =
              (if generateContentHash metadata markdown \<noteq> lastContentHash target
               then map rec_id (filter (isRecommendationImplemented markdown) (recommendations target))
               else []),
            checkTimestamp = toISOString (clock k) \<rparr>,
      Suc k)"
  by (simp add: checkWebsiteChanges_on_def Let_def checkRecommendations_acc)

text \<open>The two recommendations of \<open>reviewedTarget\<close> are found in the mock page.\<close>

lemma reviewedTarget_matches:
  "filter (isRecommendationImplemented mock_markdown) (recommendations reviewedTarget)
     = recommendations reviewedTarget"
  by code_simp

text \<open>
  Claim C1, as the code has it. The check has no first-run case: for every target and every
  scraped page, \<open>contentChanged\<close> is whether the new hash differs from the stored one, and
  \<open>newContentHash\<close> is the new hash. A stored hash that is the empty string therefore
  always gives \<open>contentChanged = true\<close>, since a hash has 64 digits.
\<close>

theorem contentChanged_is_hash_difference:
  "map_sum id newContentHash (fst (checkWebsiteChanges_on metadata markdown clock target k))
     = Inr (generateContentHash metadata markdown) \<and>
   map_sum id contentChanged (fst (checkWebsiteChanges_on metadata markdown clock target k))
     = Inr (generateContentHash metadata markdown \<noteq> lastContentHash target) \<and>
   (lastContentHash target = [] \<longrightarrow>
      map_sum id contentChanged (fst (checkWebsiteChanges_on metadata markdown clock target k))
        = Inr True)"
  by (simp add: checkWebsiteChanges_on_eq generateContentHash_not_empty)

theorem contentChanged_is_hash_difference_witness:
  "lastContentHash firstRunTarget = [] \<and>
   map_sum id contentChanged
     (fst (checkWebsiteChanges_on mock_metadata mock_markdown clock0 firstRunTarget 7)) = Inr True"
proof -
  have first_run: "lastContentHash firstRunTarget = []"
    by (simp add: firstRunTarget_def)
  from contentChanged_is_hash_difference [of mock_metadata mock_markdown clock0 firstRunTarget 7]
    first_run show ?thesis by blast
qed

text \<open>
  Claim C1 as stated fails: the first check of a target whose stored hash is empty reports
  \<open>contentChanged = true\<close>.
\<close>

theorem first_run_reports_change:
  "lastContentHash firstRunTarget = [] \<and>
   map_sum id contentChanged (fst (checkWebsiteChanges clock0 firstRunTarget 0)) = Inr True"
  by (simp add: checkWebsiteChanges_def checkWebsiteChanges_on_eq firstRunTarget_def
      generateContentHash_not_empty)

text \<open>
  Claim C3. In the result of a successful check, \<open>recommendationsImplemented\<close> implies
  \<open>contentChanged\<close>.
\<close>

theorem implemented_implies_changed:
  assumes "fst (checkWebsiteChanges_on metadata markdown clock target k) = Inr result"
    and "recommendationsImplemented result"
  shows "contentChanged result"
  using assms by (auto simp: checkWebsiteChanges_on_eq)

theorem implemented_implies_changed_witness:
  "recommendationsImplemented
     (projr (fst (checkWebsiteChanges_on mock_metadata mock_markdown clock0 reviewedTarget 0))) \<and>
   contentChanged
     (projr (fst (checkWebsiteChanges_on mock_metadata mock_markdown clock0 reviewedTarget 0)))"
proof -
  let ?r = "projr (fst (checkWebsiteChanges_on mock_metadata mock_markdown clock0 reviewedTarget 0))"
  have changed: "generateContentHash mock_metadata mock_markdown \<noteq> lastContentHash reviewedTarget"
    by (rule generateContentHash_neq_short) (simp add: reviewedTarget_def)
  have ok: "fst (checkWebsiteChanges_on mock_metadata mock_markdown clock0 reviewedTarget 0) = Inr ?r"
    by (simp add: checkWebsiteChanges_on_eq)
  have impl: "recommendationsImplemented ?r"
    using changed by (simp add: checkWebsiteChanges_on_eq reviewedTarget_matches)
      (simp add: reviewedTarget_def)
  from implemented_implies_changed [OF ok impl] impl show ?thesis by simp
qed

subsection \<open>The matcher\<close>

text \<open>
  Claim C6. A recommendation whose suggested text is empty is reported as implemented, for
  every body text: the split of the empty text is one empty piece, which every body
  includes.
\<close>

theorem empty_suggestion_is_implemented:
  "isRecommendationImplemented content (recommendation\<lparr>recommendedContent := []\<rparr>)"
  by (simp add: isRecommendationImplemented_def toLowerCase_def replaceWhitespace_def
      split_Nil includes_str_Nil)

subsection \<open>The loop over the targets\<close>

lemma notify_failedResult: "notify target (failedResult target' err now) = []"
  by (simp add: notify_def failedResult_def)

lemma monitorTarget_results:
  "results (monitorTarget check clock st target)
     = results st @ [recorded check clock target (ticks st)]"
  by (simp add: monitorTarget_def recorded_def split: prod.splits sum.splits)

lemma monitorTarget_processed:
  "processed (monitorTarget check clock st target) = processed st @ [target]"
  by (simp add: monitorTarget_def split: prod.splits sum.splits)

lemma monitorTarget_sent:
  "sent (monitorTarget check clock st target)
     = sent st @ notify target (recorded check clock target (ticks st))"
  by (simp add: monitorTarget_def recorded_def notify_failedResult split: prod.splits sum.splits)

lemma loop_processed:
  "processed (foldl (monitorTarget check clock) st targets) = processed st @ targets"
  by (induction targets arbitrary: st) (simp_all add: monitorTarget_processed)

lemma loop_results_length:
  "length (results (foldl (monitorTarget check clock) st targets))
     = length (results st) + length targets"
  by (induction targets arbitrary: st) (simp_all add: monitorTarget_results)

text \<open>The loop only appends to \<open>results\<close>.\<close>

lemma loop_results_prefix:
  "take (length (results st)) (results (foldl (monitorTarget check clock) st targets))
     = results st"
proof (induction targets arbitrary: st)
  case Nil
  show ?case by simp
next
  case (Cons t ts)
  have "take (length (results st))
          (take (length (results (monitorTarget check clock st t)))
             (results (foldl (monitorTarget check clock) (monitorTarget check clock st t) ts)))
        = results st"
    unfolding Cons.IH by (simp add: monitorTarget_results)
  then show ?case by (simp add: monitorTarget_results min_def)
qed

text \<open>The result at position \<open>i\<close> is the one recorded for target \<open>i\<close>, at the clock
  reading count that the iterations before it left.\<close>

lemma loop_results_nth:
  assumes "i < length targets"
  shows "results (foldl (monitorTarget check clock) st targets) ! (length (results st) + i)
           = recorded check clock (targets ! i)
               (ticks (foldl (monitorTarget check clock) st (take i targets)))"
proof -
  let ?step = "monitorTarget check clock"
  let ?sti = "foldl ?step st (take i targets)"
  let ?stS = "foldl ?step st (take (Suc i) targets)"
  have split_targets: "targets = take (Suc i) targets @ drop (Suc i) targets" by simp
  have whole: "foldl ?step st targets = foldl ?step ?stS (drop (Suc i) targets)"
    by (subst split_targets) (simp only: foldl_append)
  have stS: "?stS = ?step ?sti (targets ! i)"
    using assms by (simp add: take_Suc_conv_app_nth)
  have len_i: "length (results ?sti) = length (results st) + i"
    using assms by (simp add: loop_results_length)
  have res_S: "results ?stS = results ?sti @ [recorded check clock (targets ! i) (ticks ?sti)]"
    by (simp add: stS monitorTarget_results)
  have "take (length (results ?stS)) (results (foldl ?step st targets)) = results ?stS"
    unfolding whole by (rule loop_results_prefix)
  then have "results (foldl ?step st targets) ! (length (results st) + i)
               = results ?stS ! (length (results st) + i)"
    by (metis len_i length_append_singleton lessI nth_take res_S)
  also have "\<dots> = recorded check clock (targets ! i) (ticks ?sti)"
    by (simp add: res_S len_i [symmetric])
  finally show ?thesis .
qed

lemma loop_sent:
  "sent (foldl (monitorTarget check clock) st targets)
     = sent st @ concat (map (\<lambda>(t, r). notify t r)
         (zip targets (drop (length (results st))
            (results (foldl (monitorTarget check clock) st targets)))))"
proof (induction targets arbitrary: st)
  case Nil
  show ?case by simp
next
  case (Cons t ts)
  let ?st1 = "monitorTarget check clock st t"
  let ?final = "foldl (monitorTarget check clock) ?st1 ts"
  have pre: "take (length (results ?st1)) (results ?final) = results ?st1"
    by (rule loop_results_prefix)
  have len1: "length (results ?st1) = Suc (length (results st))"
    by (simp add: monitorTarget_results)
  have "drop (length (results st)) (take (length (results ?st1)) (results ?final))
          = [recorded check clock t (ticks st)]"
    unfolding pre by (simp add: monitorTarget_results)
  then have "drop (length (results st)) (results ?final)
          = recorded check clock t (ticks st) # drop (length (results ?st1)) (results ?final)"
    by (metis append_take_drop_id drop_take len1 append_Cons append_Nil diff_Suc_1 drop_drop
        plus_1_eq_Suc take_drop add.commute)
  then show ?case
    by (simp add: Cons.IH monitorTarget_sent)
qed

lemma loop_map_results:
  assumes "\<And>t k. f (recorded check clock t k) = g t"
  shows "map f (results (foldl (monitorTarget check clock) st targets))
           = map f (results st) @ map g targets"
  by (induction targets arbitrary: st) (simp_all add: monitorTarget_results assms)

subsection \<open>The monitoring pass\<close>

lemma run_results:
  "results (snd (runDailyMonitoring_on check clock targets k))
     = results (foldl (monitorTarget check clock) (initial_state k) targets)"
  by (simp add: runDailyMonitoring_on_def Let_def split_def)

lemma run_sent:
  "sent (snd (runDailyMonitoring_on check clock targets k))
     = sent (foldl (monitorTarget check clock) (initial_state k) targets)"
  by (simp add: runDailyMonitoring_on_def Let_def split_def)

lemma run_processed:
  "processed (snd (runDailyMonitoring_on check clock targets k))
     = processed (foldl (monitorTarget check clock) (initial_state k) targets)"
  by (simp add: runDailyMonitoring_on_def Let_def split_def)

lemma run_summary:
  "getProp (body_json (fst (runDailyMonitoring_on check clock targets k))) ''summary''
     = Some (summary_json (results (snd (runDailyMonitoring_on check clock targets k))))"
  by (simp add: runDailyMonitoring_on_def Let_def split_def)

lemma run_status: "status (fst (runDailyMonitoring_on check clock targets k)) = 200"
  by (simp add: runDailyMonitoring_on_def Let_def split_def)

lemma run_processed_eq: "processed (snd (runDailyMonitoring_on check clock targets k)) = targets"
  unfolding run_processed by (simp add: loop_processed initial_state_def)

lemma run_results_length:
  "length (results (snd (runDailyMonitoring_on check clock targets k))) = length targets"
  unfolding run_results by (simp add: loop_results_length initial_state_def)

lemma run_results_nth:
  assumes "i < length targets"
  shows "results (snd (runDailyMonitoring_on check clock targets k)) ! i
           = recorded check clock (targets ! i)
               (ticks (foldl (monitorTarget check clock) (initial_state k) (take i targets)))"
  unfolding run_results
  using loop_results_nth [OF assms, of check clock "initial_state k"]
  by (simp add: initial_state_def)

lemma run_sent_eq:
  "sent (snd (runDailyMonitoring_on check clock targets k)) =
     concat (map (\<lambda>(t, r). notify t r)
       (zip targets (results (snd (runDailyMonitoring_on check clock targets k)))))"
  unfolding run_sent run_results
  using loop_sent [of check clock "initial_state k" targets]
  by (simp add: initial_state_def)

lemma summary_fields:
  "getProp (summary_json rs) ''totalChecked'' = Some (JNum (of_nat (length rs))) \<and>
   getProp (summary_json rs) ''errors'' = None"
  by (simp add: summary_json_def)

lemma notify_kinds:
  "map (\<lambda>n. getProp n ''type'') (notify target result) =
     (if recommendationsImplemented result then [Some (JStr ''recommendation_implemented'')]
      else if contentChanged result then [Some (JStr ''content_change_alert'')]
      else [])"
  by (simp add: notify_def sendImplementationNotification_def sendContentChangeAlert_def)

lemma recorded_checkWebsiteChanges_on:
  "recorded (checkWebsiteChanges_on metadata markdown clock) clock' target k
     = projr (fst (checkWebsiteChanges_on metadata markdown clock target k))"
  by (simp add: recorded_def checkWebsiteChanges_on_eq)

lemma recorded_failed:
  assumes "fst (check target k) = Inl err"
  shows "recorded check clock target k
           = failedResult target err (toISOString (clock (snd (check target k))))"
  using assms by (cases "check target k") (simp add: recorded_def)

text \<open>A pass with the check of the source: which targets changed, and which
  recommendations are reported for each.\<close>

lemma run_changed:
  "map contentChanged
     (results (snd (runDailyMonitoring_on (checkWebsiteChanges_on metadata markdown clock) clock targets k)))
     = map (\<lambda>t. generateContentHash metadata markdown \<noteq> lastContentHash t) targets"
  unfolding run_results
  by (subst loop_map_results
        [where g = "\<lambda>t. generateContentHash metadata markdown \<noteq> lastContentHash t"])
     (simp_all add: recorded_checkWebsiteChanges_on checkWebsiteChanges_on_eq initial_state_def)

lemma run_implemented_ids:
  "map implementedRecommendations
     (results (snd (runDailyMonitoring_on (checkWebsiteChanges_on metadata markdown clock) clock targets k)))
     = map (\<lambda>t. if generateContentHash metadata markdown \<noteq> lastContentHash t
                 then map rec_id (filter (isRecommendationImplemented markdown) (recommendations t))
                 else []) targets"
  unfolding run_results
  by (subst loop_map_results
        [where g = "\<lambda>t. if generateContentHash metadata markdown \<noteq> lastContentHash t
                 then map rec_id (filter (isRecommendationImplemented markdown) (recommendations t))
                 else []"])
     (simp_all add: recorded_checkWebsiteChanges_on checkWebsiteChanges_on_eq initial_state_def)

text \<open>The invariant of claim C3 holds of every result that a pass of the source records,
  and of the result of the \<open>catch\<close> block.\<close>

lemma pass_results_invariant:
  assumes "r \<in> set (results (snd (runDailyMonitoring_on
             (checkWebsiteChanges_on metadata markdown clock) clock targets k)))"
    and "recommendationsImplemented r"
  shows "contentChanged r"
proof -
  let ?rs = "results (snd (runDailyMonitoring_on
               (checkWebsiteChanges_on metadata markdown clock) clock targets k))"
  have "map (\<lambda>r. recommendationsImplemented r \<longrightarrow> contentChanged r) ?rs
          = map (\<lambda>t. True) targets"
    unfolding run_results
    by (subst loop_map_results [where g = "\<lambda>t. True"])
       (simp_all add: recorded_checkWebsiteChanges_on checkWebsiteChanges_on_eq initial_state_def)
  then have "\<forall>b \<in> set (map (\<lambda>r. recommendationsImplemented r \<longrightarrow> contentChanged r) ?rs). b"
    by simp
  with assms show ?thesis by auto
qed

lemma failed_result_invariant:
  "recommendationsImplemented (failedResult target err now) \<longrightarrow>
   contentChanged (failedResult target err now)"
  by (simp add: failedResult_def)

text \<open>
  Claim C2, as the code has it. On a pass, for every target whose content changed the
  matcher is evaluated on every recommendation of the target, whatever its \<open>applied\<close>
  flag, and the ids of those that match are accumulated in order; for a target whose
  content did not change nothing is accumulated. No \<open>applied\<close> flag is written: the
  targets after the pass are the targets before it.
\<close>

theorem all_recommendations_evaluated:
  "processed (snd (runDailyMonitoring_on (checkWebsiteChanges_on metadata markdown clock) clock targets k))
     = targets \<and>
   map contentChanged
     (results (snd (runDailyMonitoring_on (checkWebsiteChanges_on metadata markdown clock) clock targets k)))
     = map (\<lambda>t. generateContentHash metadata markdown \<noteq> lastContentHash t) targets \<and>
   map implementedRecommendations
     (results (snd (runDailyMonitoring_on (checkWebsiteChanges_on metadata markdown clock) clock targets k)))
     = map (\<lambda>t. if generateContentHash metadata markdown \<noteq> lastContentHash t
                 then map rec_id (filter (isRecommendationImplemented markdown) (recommendations t))
                 else []) targets"
  using run_processed_eq run_changed run_implemented_ids by blast

text \<open>
  Claim C2 as stated fails. The first recommendation of \<open>reviewedTarget\<close> is already
  applied, and is evaluated and reported all the same; the second one matches, and its
  \<open>applied\<close> flag is still false after the pass.
\<close>

theorem applied_recommendation_reevaluated:
  "map (map applied) (map recommendations [reviewedTarget]) = [[True, False]] \<and>
   map implementedRecommendations
     (results (snd (runDailyMonitoring_on (checkWebsiteChanges clock0) clock0 [reviewedTarget] 0)))
     = [[''rec_a'', ''rec_b'']] \<and>
   map (map applied) (map recommendations
     (processed (snd (runDailyMonitoring_on (checkWebsiteChanges clock0) clock0 [reviewedTarget] 0))))
     = [[True, False]]"
proof -
  have changed: "generateContentHash mock_metadata mock_markdown \<noteq> lastContentHash reviewedTarget"
    by (rule generateContentHash_neq_short) (simp add: reviewedTarget_def)
  have ids: "map rec_id (recommendations reviewedTarget) = [''rec_a'', ''rec_b'']"
    by (simp add: reviewedTarget_def)
  have flags: "map applied (recommendations reviewedTarget) = [True, False]"
    by (simp add: reviewedTarget_def)
  show ?thesis
    using run_implemented_ids [of mock_metadata mock_markdown clock0 "[reviewedTarget]" 0]
      run_processed_eq [of "checkWebsiteChanges clock0" clock0 "[reviewedTarget]" 0]
      changed ids flags
    by (simp add: checkWebsiteChanges_def reviewedTarget_matches)
qed

text \<open>
  Claim C4. For a target and its result, the notifications sent are: one of type
  \<open>recommendation_implemented\<close> when \<open>recommendationsImplemented\<close> holds, otherwise one
  of type \<open>content_change_alert\<close> when \<open>contentChanged\<close> holds, otherwise none; so never
  both. A pass sends exactly these notifications, target by target, for the results it
  records (one per target).
\<close>

theorem notification_exclusive:
  "map (\<lambda>n. getProp n ''type'') (notify target result) =
     (if recommendationsImplemented result then [Some (JStr ''recommendation_implemented'')]
      else if contentChanged result then [Some (JStr ''content_change_alert'')]
      else []) \<and>
   length (results (snd (runDailyMonitoring_on check clock targets k))) = length targets \<and>
   sent (snd (runDailyMonitoring_on check clock targets k)) =
     concat (map (\<lambda>(t, r). notify t r)
       (zip targets (results (snd (runDailyMonitoring_on check clock targets k)))))"
  using notify_kinds run_results_length run_sent_eq by blast

text \<open>
  Claim C7, as the code has it. Whatever the per-target check does, a pass records one
  result per target, in order: the result of the check, or the result of the \<open>catch\<close>
  block when the check throws. The response has status 200 and a summary whose
  \<open>totalChecked\<close> is the number of targets, failed ones included; the summary has the
  three counts \<open>totalChecked\<close>, \<open>contentChanges\<close>, \<open>recommendationsImplemented\<close> and no
  count of errors.
\<close>

theorem batch_continues_after_failure:
  "length (results (snd (runDailyMonitoring_on check clock targets k))) = length targets \<and>
   processed (snd (runDailyMonitoring_on check clock targets k)) = targets \<and>
   status (fst (runDailyMonitoring_on check clock targets k)) = 200 \<and>
   getProp (body_json (fst (runDailyMonitoring_on check clock targets k))) ''summary''
     = Some (summary_json (results (snd (runDailyMonitoring_on check clock targets k)))) \<and>
   getProp (summary_json (results (snd (runDailyMonitoring_on check clock targets k)))) ''totalChecked''
     = Some (JNum (of_nat (length targets))) \<and>
   getProp (summary_json (results (snd (runDailyMonitoring_on check clock targets k)))) ''errors''
     = None \<and>
   (\<forall>i < length targets.
      results (snd (runDailyMonitoring_on check clock targets k)) ! i
        = recorded check clock (targets ! i)
            (ticks (foldl (monitorTarget check clock) (initial_state k) (take i targets))))"
  using run_results_length [of check clock targets k] run_processed_eq [of check clock targets k]
    run_status [of check clock targets k] run_summary [of check clock targets k]
    summary_fields [of "results (snd (runDailyMonitoring_on check clock targets k))"]
    run_results_nth [of _ targets check clock k]
  by simp

lemma flaky_tick1:
  "ticks (foldl (monitorTarget (flakyCheck clock0) clock0) (initial_state 0) (take 1 threeTargets))
     = 1"
  by (simp add: threeTargets_def initial_state_def monitorTarget_def flakyCheck_def
      checkWebsiteChanges_def checkWebsiteChanges_on_eq reviewedTarget_def)

lemma flaky_broken:
  "flakyCheck clock0 brokenTarget k = (Inl (Error ''Error'' ''fetch failed''), k)"
  by (simp add: flakyCheck_def brokenTarget_def)

theorem batch_continues_after_failure_witness:
  "(1::nat) < length threeTargets \<and>
   results (snd (runDailyMonitoring_on (flakyCheck clock0) clock0 threeTargets 0)) ! 1
     = failedResult brokenTarget (Error ''Error'' ''fetch failed'') (toISOString (clock0 1))"
proof -
  have len: "(1::nat) < length threeTargets"
    by (simp add: threeTargets_def)
  have second: "threeTargets ! 1 = brokenTarget"
    by (simp add: threeTargets_def)
  from batch_continues_after_failure [of "flakyCheck clock0" clock0 threeTargets 0] len
  have "results (snd (runDailyMonitoring_on (flakyCheck clock0) clock0 threeTargets 0)) ! 1
          = recorded (flakyCheck clock0) clock0 (threeTargets ! 1)
              (ticks (foldl (monitorTarget (flakyCheck clock0) clock0) (initial_state 0)
                 (take 1 threeTargets)))"
    by blast
  also have "\<dots> = failedResult brokenTarget (Error ''Error'' ''fetch failed'') (toISOString (clock0 1))"
    unfolding second flaky_tick1 by (simp add: recorded_def flaky_broken)
  finally show ?thesis using len by blast
qed

lemma flaky_run_results:
  "map (\<lambda>r. (contentChanged r, recommendationsImplemented r))
     (results (snd (runDailyMonitoring_on (flakyCheck clock0) clock0 threeTargets 0)))
   = [(True, True), (False, False), (True, False)]"
  unfolding run_results
  by (simp add: threeTargets_def initial_state_def monitorTarget_def flakyCheck_def flaky_broken
      checkWebsiteChanges_def checkWebsiteChanges_on_eq reviewedTarget_matches
      generateContentHash_neq_short failedResult_def)
    (simp add: reviewedTarget_def firstRunTarget_def brokenTarget_def
      generateContentHash_neq_short)

text \<open>
  Claim C7 as stated fails. With three targets of which the second one throws, the summary
  of the pass is the three counts 3, 2 and 1: it reports no \<open>errors\<close>.
\<close>

theorem summary_has_no_error_count:
  "getProp (body_json (fst (runDailyMonitoring_on (flakyCheck clock0) clock0 threeTargets 0)))
     ''summary''
   = Some (JObj [(''totalChecked'', JNum 3), (''contentChanges'', JNum 2),
                 (''recommendationsImplemented'', JNum 1)]) \<and>
   getProp (JObj [(''totalChecked'', JNum 3), (''contentChanges'', JNum 2),
                  (''recommendationsImplemented'', JNum 1)]) ''errors'' = None"
proof -
  let ?rs = "results (snd (runDailyMonitoring_on (flakyCheck clock0) clock0 threeTargets 0))"
  have changed: "map contentChanged ?rs = [True, False, True]"
    using arg_cong [OF flaky_run_results, of "map fst"] by (simp add: comp_def)
  have impl: "map recommendationsImplemented ?rs = [True, False, False]"
    using arg_cong [OF flaky_run_results, of "map snd"] by (simp add: comp_def)
  have "length ?rs = 3"
    using arg_cong [OF changed, of length] by simp
  moreover have "length (filter contentChanged ?rs) = 2"
    using arg_cong [OF changed, of "\<lambda>bs. length (filter id bs)"]
    by (simp add: filter_map comp_def)
  moreover have "length (filter recommendationsImplemented ?rs) = 1"
    using arg_cong [OF impl, of "\<lambda>bs. length (filter id bs)"]
    by (simp add: filter_map comp_def)
  ultimately show ?thesis
    by (simp add: run_summary summary_json_def)
qed

text \<open>
  Claim C8. When the check of target \<open>i\<close> throws \<open>err\<close>, the result recorded for it has
  \<open>contentChanged\<close> and \<open>recommendationsImplemented\<close> false, the stored hash of the target
  as \<open>newContentHash\<close>, the single entry \<open>Error: <message>\<close> in \<open>changesDetected\<close> and no
  implemented recommendation; the target after the pass is the target before it, with its
  stored hash and its \<open>applied\<close> flags.
\<close>

theorem failed_check_keeps_baseline:
  assumes "i < length targets"
    and "fst (check (targets ! i)
               (ticks (foldl (monitorTarget check clock) (initial_state k) (take i targets))))
           = Inl err"
  shows "contentChanged (results (snd (runDailyMonitoring_on check clock targets k)) ! i) = False \<and>
         recommendationsImplemented (results (snd (runDailyMonitoring_on check clock targets k)) ! i)
           = False \<and>
         newContentHash (results (snd (runDailyMonitoring_on check clock targets k)) ! i)
           = lastContentHash (targets ! i) \<and>
         changesDetected (results (snd (runDailyMonitoring_on check clock targets k)) ! i)
           = [''Error: '' @ message err] \<and>
         implementedRecommendations (results (snd (runDailyMonitoring_on check clock targets k)) ! i)
           = [] \<and>
         processed (snd (runDailyMonitoring_on check clock targets k)) ! i = targets ! i"
proof -
  let ?k = "ticks (foldl (monitorTarget check clock) (initial_state k) (take i targets))"
  have "results (snd (runDailyMonitoring_on check clock targets k)) ! i
          = failedResult (targets ! i) err (toISOString (clock (snd (check (targets ! i) ?k))))"
    using run_results_nth [OF assms(1), of check clock k]
      recorded_failed [of check "targets ! i" ?k err clock, OF assms(2)]
    by simp
  then show ?thesis
    by (simp add: failedResult_def run_processed_eq)
qed

theorem failed_check_keeps_baseline_witness:
  "(1::nat) < length threeTargets \<and>
   fst (flakyCheck clock0 (threeTargets ! 1)
          (ticks (foldl (monitorTarget (flakyCheck clock0) clock0) (initial_state 0)
             (take 1 threeTargets))))
     = Inl (Error ''Error'' ''fetch failed'') \<and>
   contentChanged (results (snd (runDailyMonitoring_on (flakyCheck clock0) clock0 threeTargets 0)) ! 1)
     = False \<and>
   newContentHash (results (snd (runDailyMonitoring_on (flakyCheck clock0) clock0 threeTargets 0)) ! 1)
     = ''0f0f0f'' \<and>
   changesDetected (results (snd (runDailyMonitoring_on (flakyCheck clock0) clock0 threeTargets 0)) ! 1)
     = [''Error: fetch failed''] \<and>
   processed (snd (runDailyMonitoring_on (flakyCheck clock0) clock0 threeTargets 0)) ! 1
     = brokenTarget"
proof -
  have len: "(1::nat) < length threeTargets"
    by (simp add: threeTargets_def)
  have second: "threeTargets ! 1 = brokenTarget"
    by (simp add: threeTargets_def)
  have failed: "fst (flakyCheck clock0 (threeTargets ! 1)
          (ticks (foldl (monitorTarget (flakyCheck clock0) clock0) (initial_state 0)
             (take 1 threeTargets))))
     = Inl (Error ''Error'' ''fetch failed'')"
    unfolding second by (simp add: flaky_broken)
  have stored: "lastContentHash brokenTarget = ''0f0f0f''"
    by (simp add: brokenTarget_def)
  from failed_check_keeps_baseline
         [of 1 threeTargets "flakyCheck clock0" clock0 0 "Error ''Error'' ''fetch failed''",
          OF len failed]
       len failed show ?thesis
    unfolding second by (simp add: stored)
qed

subsection \<open>The matcher and the tokens of the specification\<close>

lemma ratio_ge_iff:
  assumes "0 < n"
  shows "((7::rat) / 10 \<le> of_nat m / of_nat n) = (7 * n \<le> 10 * m)"
proof -
  have "((7::rat) / 10 \<le> of_nat m / of_nat n) = ((7::rat) * of_nat n \<le> 10 * of_nat m)"
    using assms by (simp add: field_simps)
  also have "\<dots> = ((of_nat (7 * n) :: rat) \<le> of_nat (10 * m))"
    by simp
  also have "\<dots> = (7 * n \<le> 10 * m)"
    by (simp only: of_nat_le_iff)
  finally show ?thesis .
qed

lemma matcher_counts:
  "isRecommendationImplemented content recommendation =
     (7 * length (split (CHR '' '') (replaceWhitespace (toLowerCase (recommendedContent recommendation))))
        \<le> 10 * length (filter (includes_str (replaceWhitespace (toLowerCase content)))
             (split (CHR '' '') (replaceWhitespace (toLowerCase (recommendedContent recommendation))))))"
  unfolding isRecommendationImplemented_def Let_def
  by (rule ratio_ge_iff) (simp add: split_not_Nil)

lemma split_Cons_sep: "split sep (sep # t) = [] # split sep t"
  by (subst split.simps) simp


lemma isWhiteSpace_toLowerCase_char: "isWhiteSpace (toLowerCase_char c) = isWhiteSpace c"
  by (auto simp: isWhiteSpace_def toLowerCase_char_def Let_def)
































subsection \<open>Scheduling\<close>

lemma makeTargets_eq:
  "makeTargets clock websiteUrl frequency index urls k =
     (map (\<lambda>i. makeTarget clock websiteUrl frequency (urls ! i) (index + i) (k + 3 * i))
        [0 ..< length urls],
      k + 3 * length urls)"
proof (induction urls arbitrary: index k)
  case Nil
  show ?case by simp
next
  case (Cons u us)
  have "map (\<lambda>i. makeTarget clock websiteUrl frequency ((u # us) ! i) (index + i) (k + 3 * i))
          [0 ..< length (u # us)]
        = makeTarget clock websiteUrl frequency u index k #
          map (\<lambda>i. makeTarget clock websiteUrl frequency (us ! i) (Suc index + i) (k + 3 + 3 * i))
            [0 ..< length us]"
    by (simp only: length_Cons map_upt_Suc) (simp add: add.assoc)
  then show ?case
    by (simp add: Cons.IH)
qed

lemma makeTarget_fields:
  "getProp (makeTarget clock websiteUrl frequency pageUrl index k) ''id''
     = Some (JStr (''target_'' @ show_int (clock k) @ ''_'' @ show_int (int index))) \<and>
   getProp (makeTarget clock websiteUrl frequency pageUrl index k) ''websiteUrl'' = websiteUrl \<and>
   getProp (makeTarget clock websiteUrl frequency pageUrl index k) ''pageUrl'' = Some pageUrl \<and>
   getProp (makeTarget clock websiteUrl frequency pageUrl index k) ''frequency'' = Some frequency \<and>
   getProp (makeTarget clock websiteUrl frequency pageUrl index k) ''createdAt''
     = Some (JStr (toISOString (clock (k + 1)))) \<and>
   getProp (makeTarget clock websiteUrl frequency pageUrl index k) ''nextCheck''
     = Some (JStr (toISOString (clock (k + 2) + getFrequencyMs frequency))) \<and>
   getProp (makeTarget clock websiteUrl frequency pageUrl index k) ''lastContentHash'' = None \<and>
   getProp (makeTarget clock websiteUrl frequency pageUrl index k) ''lastChecked'' = None \<and>
   getProp (makeTarget clock websiteUrl frequency pageUrl index k) ''lastCheckedAt'' = None \<and>
   getProp (makeTarget clock websiteUrl frequency pageUrl index k) ''recommendations'' = None"
  by (cases websiteUrl) (simp_all add: makeTarget_def)

lemma getFrequencyMs_days:
  "getFrequencyMs (JStr ''daily'') = 1 * 86400000 \<and>
   getFrequencyMs (JStr ''weekly'') = 7 * 86400000 \<and>
   getFrequencyMs (JStr ''monthly'') = 30 * 86400000"
  by (simp add: getFrequencyMs_def)

lemma getFrequencyMs_default:
  "frequency \<noteq> JStr ''daily'' \<Longrightarrow> frequency \<noteq> JStr ''weekly'' \<Longrightarrow> frequency \<noteq> JStr ''monthly''
     \<Longrightarrow> getFrequencyMs frequency = 1 * 86400000"
  by (simp add: getFrequencyMs_def)

lemma schedule_accepts:
  assumes "body \<noteq> JNull"
    and "truthy (getProp body ''websiteUrl'')"
    and "getProp body ''pageUrls'' = Some (JArr urls)"
  shows "scheduleMonitoring clock body k =
     (Inr \<lparr> status = 200,
            body_json = JObj ([(''success'', JBool True),
                               (''message'', JStr ''Monitoring scheduled successfully''),
                               (''targets'', JArr (map (\<lambda>i. makeTarget clock (getProp body ''websiteUrl'')
                                    (case getProp body ''frequency'' of None \<Rightarrow> JStr ''daily'' | Some f \<Rightarrow> f)
                                    (urls ! i) i (k + 3 * i)) [0 ..< length urls]))] @
                              optField ''nextCheck''
                                (case urls of [] \<Rightarrow> None
                                 | first # _ \<Rightarrow> Some (JStr (toISOString (clock (k + 2) + getFrequencyMs
                                     (case getProp body ''frequency'' of None \<Rightarrow> JStr ''daily'' | Some f \<Rightarrow> f)))))) \<rparr>,
      k + 3 * length urls)"
proof (cases urls)
  case Nil
  with assms show ?thesis
    by (simp add: scheduleMonitoring_def Let_def makeTargets_eq)
next
  case (Cons u us)
  have first: "map (\<lambda>i. makeTarget clock (getProp body ''websiteUrl'')
                  (case getProp body ''frequency'' of None \<Rightarrow> JStr ''daily'' | Some f \<Rightarrow> f)
                  (urls ! i) i (k + 3 * i)) [0 ..< length urls]
        = makeTarget clock (getProp body ''websiteUrl'')
            (case getProp body ''frequency'' of None \<Rightarrow> JStr ''daily'' | Some f \<Rightarrow> f) u 0 k #
          map (\<lambda>i. makeTarget clock (getProp body ''websiteUrl'')
                  (case getProp body ''frequency'' of None \<Rightarrow> JStr ''daily'' | Some f \<Rightarrow> f)
                  (urls ! i) i (k + 3 * i)) [1 ..< length urls]"
    using Cons by (simp add: upt_conv_Cons del: upt_Suc)
  show ?thesis
    using assms
    apply (simp add: scheduleMonitoring_def Let_def makeTargets_eq)
    apply (simp only: first list.case)
    apply (simp add: makeTarget_fields Cons)
    done
qed

lemma schedule_rejects:
  assumes "body \<noteq> JNull"
    and "\<not> truthy (getProp body ''websiteUrl'') \<or> \<not> truthy (getProp body ''pageUrls'')
         \<or> \<not> isArray (getProp body ''pageUrls'')"
  shows "scheduleMonitoring clock body k =
     (Inr \<lparr> status = 400,
            body_json = JObj [(''error'', JStr ''websiteUrl and pageUrls array are required'')] \<rparr>,
      k)"
  using assms by (auto simp: scheduleMonitoring_def Let_def)

lemma frequency_default:
  "getProp body ''frequency'' = None \<or>
     (getProp body ''frequency'' \<noteq> Some (JStr ''daily'') \<and>
      getProp body ''frequency'' \<noteq> Some (JStr ''weekly'') \<and>
      getProp body ''frequency'' \<noteq> Some (JStr ''monthly''))
   \<Longrightarrow> getFrequencyMs (case getProp body ''frequency'' of None \<Rightarrow> JStr ''daily'' | Some f \<Rightarrow> f)
         = 1 * 86400000"
  by (auto simp: getFrequencyMs_def split: option.splits)

text \<open>
  Claim C9, as the code has it. For a request body that is not null, with a truthy
  \<open>websiteUrl\<close> and an array \<open>pageUrls\<close>, \<open>scheduleMonitoring\<close> answers 200 with one
  target object per page URL, in order, after three clock readings per page. The object
  for a page has the fields \<open>id\<close> (the text \<open>target_\<close>, the clock reading taken for it,
  an underscore and the index of the page), \<open>websiteUrl\<close>, \<open>pageUrl\<close>, \<open>frequency\<close>,
  \<open>createdAt\<close> (the clock reading taken for it) and \<open>nextCheck\<close> (the clock reading taken
  for it plus \<open>getFrequencyMs(frequency)\<close>), and no field \<open>lastContentHash\<close>,
  \<open>lastChecked\<close>, \<open>lastCheckedAt\<close> or \<open>recommendations\<close>. The interval is exactly
  1 day for daily, 7 days for weekly and 30 days for monthly.
\<close>

theorem schedule_creates_targets:
  assumes "body \<noteq> JNull"
    and "truthy (getProp body ''websiteUrl'')"
    and "getProp body ''pageUrls'' = Some (JArr urls)"
  shows "scheduleMonitoring clock body k =
     (Inr \<lparr> status = 200,
            body_json = JObj ([(''success'', JBool True),
                               (''message'', JStr ''Monitoring scheduled successfully''),
                               (''targets'', JArr (map (\<lambda>i. makeTarget clock (getProp body ''websiteUrl'')
                                    (case getProp body ''frequency'' of None \<Rightarrow> JStr ''daily'' | Some f \<Rightarrow> f)
                                    (urls ! i) i (k + 3 * i)) [0 ..< length urls]))] @
                              optField ''nextCheck''
                                (case urls of [] \<Rightarrow> None
                                 | first # _ \<Rightarrow> Some (JStr (toISOString (clock (k + 2) + getFrequencyMs
                                     (case getProp body ''frequency'' of None \<Rightarrow> JStr ''daily'' | Some f \<Rightarrow> f)))))) \<rparr>,
      k + 3 * length urls) \<and>
    getProp (makeTarget clock websiteUrl frequency pageUrl index j) ''id''
      = Some (JStr (''target_'' @ show_int (clock j) @ ''_'' @ show_int (int index))) \<and>
    getProp (makeTarget clock websiteUrl frequency pageUrl index j) ''websiteUrl'' = websiteUrl \<and>
    getProp (makeTarget clock websiteUrl frequency pageUrl index j) ''pageUrl'' = Some pageUrl \<and>
    getProp (makeTarget clock websiteUrl frequency pageUrl index j) ''frequency'' = Some frequency \<and>
    getProp (makeTarget clock websiteUrl frequency pageUrl index j) ''createdAt''
      = Some (JStr (toISOString (clock (j + 1)))) \<and>
    getProp (makeTarget clock websiteUrl frequency pageUrl index j) ''nextCheck''
      = Some (JStr (toISOString (clock (j + 2) + getFrequencyMs frequency))) \<and>
    getProp (makeTarget clock websiteUrl frequency pageUrl index j) ''lastContentHash'' = None \<and>
    getProp (makeTarget clock websiteUrl frequency pageUrl index j) ''lastChecked'' = None \<and>
    getProp (makeTarget clock websiteUrl frequency pageUrl index j) ''lastCheckedAt'' = None \<and>
    getProp (makeTarget clock websiteUrl frequency pageUrl index j) ''recommendations'' = None \<and>
    getFrequencyMs (JStr ''daily'') = 1 * 86400000 \<and>
    getFrequencyMs (JStr ''weekly'') = 7 * 86400000 \<and>
    getFrequencyMs (JStr ''monthly'') = 30 * 86400000"
  using schedule_accepts [OF assms, of clock k]
    makeTarget_fields [of clock websiteUrl frequency pageUrl index j]
    getFrequencyMs_days
  by blast

lemma weeklyRequest_ok:
  "weeklyRequest \<noteq> JNull \<and>
   truthy (getProp weeklyRequest ''websiteUrl'') \<and>
   getProp weeklyRequest ''pageUrls''
     = Some (JArr [JStr ''https://example.com/a'', JStr ''https://example.com/b''])"
  by (simp add: weeklyRequest_def)

theorem schedule_creates_targets_witness:
  "weeklyRequest \<noteq> JNull \<and>
   truthy (getProp weeklyRequest ''websiteUrl'') \<and>
   getProp weeklyRequest ''pageUrls''
     = Some (JArr [JStr ''https://example.com/a'', JStr ''https://example.com/b'']) \<and>
   map_sum id status (fst (scheduleMonitoring clock0 weeklyRequest 0)) = Inr 200 \<and>
   snd (scheduleMonitoring clock0 weeklyRequest 0) = 6 \<and>
   getProp (makeTarget clock0 (getProp weeklyRequest ''websiteUrl'') (JStr ''weekly'')
              (JStr ''https://example.com/b'') 1 3) ''id''
     = Some (JStr ''target_1700000003000_1'') \<and>
   getProp (makeTarget clock0 (getProp weeklyRequest ''websiteUrl'') (JStr ''weekly'')
              (JStr ''https://example.com/b'') 1 3) ''nextCheck''
     = Some (JStr ''2023-11-21T22:13:25.000Z'')"
proof -
  note ok = weeklyRequest_ok
  note created = schedule_creates_targets [where body = weeklyRequest
      and urls = "[JStr ''https://example.com/a'', JStr ''https://example.com/b'']"
      and clock = clock0 and k = 0
      and websiteUrl = "getProp weeklyRequest ''websiteUrl''" and frequency = "JStr ''weekly''"
      and pageUrl = "JStr ''https://example.com/b''" and index = 1 and j = 3]
  from created ok
  have response: "map_sum id status (fst (scheduleMonitoring clock0 weeklyRequest 0)) = Inr 200 \<and>
        snd (scheduleMonitoring clock0 weeklyRequest 0) = 6"
    by simp
  have id_text: "''target_'' @ show_int (clock0 3) @ ''_'' @ show_int (int 1)
        = ''target_1700000003000_1''"
    by code_simp
  have next_text: "toISOString (clock0 (3 + 2) + getFrequencyMs (JStr ''weekly''))
        = ''2023-11-21T22:13:25.000Z''"
    by code_simp
  from created ok
  have "getProp (makeTarget clock0 (getProp weeklyRequest ''websiteUrl'') (JStr ''weekly'')
              (JStr ''https://example.com/b'') 1 3) ''id''
          = Some (JStr (''target_'' @ show_int (clock0 3) @ ''_'' @ show_int (int 1)))"
    and "getProp (makeTarget clock0 (getProp weeklyRequest ''websiteUrl'') (JStr ''weekly'')
              (JStr ''https://example.com/b'') 1 3) ''nextCheck''
          = Some (JStr (toISOString (clock0 (3 + 2) + getFrequencyMs (JStr ''weekly''))))"
    by blast+
  then have fields: "getProp (makeTarget clock0 (getProp weeklyRequest ''websiteUrl'') (JStr ''weekly'')
              (JStr ''https://example.com/b'') 1 3) ''id''
          = Some (JStr ''target_1700000003000_1'')"
    "getProp (makeTarget clock0 (getProp weeklyRequest ''websiteUrl'') (JStr ''weekly'')
              (JStr ''https://example.com/b'') 1 3) ''nextCheck''
          = Some (JStr ''2023-11-21T22:13:25.000Z'')"
    by (simp_all only: id_text next_text)
  from ok response fields show ?thesis by blast
qed

text \<open>
  Claim C9 as stated fails: the targets that a scheduling request creates carry no
  \<open>lastContentHash\<close> and no \<open>lastCheckedAt\<close>. The response to \<open>weeklyRequest\<close>, in full:
\<close>

theorem scheduled_target_has_no_hash:
  "fst (scheduleMonitoring clock0 weeklyRequest 0) =
     Inr \<lparr> status = 200,
           body_json =
             JObj [(''success'', JBool True),
                   (''message'', JStr ''Monitoring scheduled successfully''),
                   (''targets'',
                      JArr [JObj [(''id'', JStr ''target_1700000000000_0''),
                                  (''websiteUrl'', JStr ''https://example.com''),
                                  (''pageUrl'', JStr ''https://example.com/a''),
                                  (''frequency'', JStr ''weekly''),
                                  (''createdAt'', JStr ''2023-11-14T22:13:21.000Z''),
                                  (''nextCheck'', JStr ''2023-11-21T22:13:22.000Z'')],
                            JObj [(''id'', JStr ''target_1700000003000_1''),
                                  (''websiteUrl'', JStr ''https://example.com''),
                                  (''pageUrl'', JStr ''https://example.com/b''),
                                  (''frequency'', JStr ''weekly''),
                                  (''createdAt'', JStr ''2023-11-14T22:13:24.000Z''),
                                  (''nextCheck'', JStr ''2023-11-21T22:13:25.000Z'')]]),
                   (''nextCheck'', JStr ''2023-11-21T22:13:22.000Z'')] \<rparr> \<and>
   getProp (JObj [(''id'', JStr ''target_1700000000000_0''),
                  (''websiteUrl'', JStr ''https://example.com''),
                  (''pageUrl'', JStr ''https://example.com/a''),
                  (''frequency'', JStr ''weekly''),
                  (''createdAt'', JStr ''2023-11-14T22:13:21.000Z''),
                  (''nextCheck'', JStr ''2023-11-21T22:13:22.000Z'')]) ''lastContentHash'' = None \<and>
   getProp (JObj [(''id'', JStr ''target_1700000000000_0''),
                  (''websiteUrl'', JStr ''https://example.com''),
                  (''pageUrl'', JStr ''https://example.com/a''),
                  (''frequency'', JStr ''weekly''),
                  (''createdAt'', JStr ''2023-11-14T22:13:21.000Z''),
                  (''nextCheck'', JStr ''2023-11-21T22:13:22.000Z'')]) ''lastCheckedAt'' = None"
  by code_simp

text \<open>
  Claim C10. For every body that is not null the claim holds: \<open>schedule_rejects\<close> is the
  answer 400 without any target or clock reading, \<open>frequency_default\<close> the interval of one
  day for an absent or unknown frequency. For the body \<open>null\<close>, which has no
  \<open>websiteUrl\<close> either, the destructuring throws before the validation is reached:
\<close>

theorem null_body_throws:
  "scheduleMonitoring clock JNull k =
     (Inl (Error ''TypeError''
             ''Cannot destructure property 'websiteUrl' of 'body' as it is null.''), k)"
  by (simp add: scheduleMonitoring_def)

theorem null_body_throws_witness:
  "getProp JNull ''websiteUrl'' = None \<and>
   fst (scheduleMonitoring clock0 JNull 0) =
     Inl (Error ''TypeError''
            ''Cannot destructure property 'websiteUrl' of 'body' as it is null.'')"
  using null_body_throws [of clock0 0] by simp

text \<open>The server answers the request with the body \<open>null\<close> with status 500, as it
  answers a request whose body is not JSON text.\<close>

lemma null_body_answer:
  "handler clock \<lparr> http_method = ''POST'', pathname = ''/schedule'', json_body = Inr JNull \<rparr> k =
     (\<lparr> status = 500, body_json = JObj [(''error'', JStr ''Internal server error'')] \<rparr>, k)"
  by (simp add: handler_def scheduleMonitoring_def)

lemma unparsable_body_answer:
  "handler clock \<lparr> http_method = ''POST'', pathname = ''/schedule'', json_body = Inl err \<rparr> k =
     (\<lparr> status = 500, body_json = JObj [(''error'', JStr ''Internal server error'')] \<rparr>, k)"
  by (simp add: handler_def)

subsection \<open>Blank suggestions\<close>

text \<open>A suggested text of white space only is reported as implemented as well: its pieces
  are empty.\<close>

lemma collapseRuns_blank:
  "\<forall>c \<in> set s. isWhiteSpace c \<Longrightarrow> collapseRuns True s = []"
  by (induction s) simp_all

lemma replaceWhitespace_blank:
  assumes "\<forall>c \<in> set s. isWhiteSpace c"
  shows "replaceWhitespace s = (if s = [] then [] else '' '')"
  using assms by (cases s) (simp_all add: replaceWhitespace_def collapseRuns_blank)

lemma blank_suggestion_is_implemented:
  assumes "\<forall>c \<in> set s. isWhiteSpace c"
  shows "isRecommendationImplemented content (recommendation\<lparr>recommendedContent := s\<rparr>)"
proof -
  have "\<forall>c \<in> set (toLowerCase s). isWhiteSpace c"
    using assms by (simp add: toLowerCase_def isWhiteSpace_toLowerCase_char)
  then have "replaceWhitespace (toLowerCase s) = (if s = [] then [] else '' '')"
    using replaceWhitespace_blank [of "toLowerCase s"] by (simp add: toLowerCase_def)
  then show ?thesis
    by (simp add: matcher_counts split_Nil split_Cons_sep includes_str_Nil)
qed

subsection \<open>Two passes in full\<close>

text \<open>A target whose page did not change: nothing is evaluated, nothing is sent.\<close>

lemma settled_target_unchanged:
  "fst (checkWebsiteChanges clock0 settledTarget 0) =
     Inr \<lparr> targetId = ''target_004'',
           result_websiteUrl = ''https://example.com'',
           result_pageUrl = ''https://example.com/settled'',
           contentChanged = False,
           recommendationsImplemented = False,
           newContentHash = ''57f4e6d6faf517e11fdad5c556e08399c7697358dba4fe1ac5c87a25e6a7f86d'',
           changesDetected = [],
           implementedRecommendations = [],
           checkTimestamp = ''2023-11-14T22:13:20.000Z'' \<rparr>"
proof -
  have "toISOString (clock0 0) = ''2023-11-14T22:13:20.000Z''"
    by code_simp
  then show ?thesis
    by (simp add: checkWebsiteChanges_def checkWebsiteChanges_on_eq mock_hash settledTarget_def)
qed

lemma settled_target_quiet:
  "sent (snd (runDailyMonitoring_on (checkWebsiteChanges clock0) clock0 [settledTarget] 0)) = []"
  unfolding run_sent
  by (simp add: initial_state_def monitorTarget_def checkWebsiteChanges_def
      checkWebsiteChanges_on_eq mock_hash notify_def settledTarget_def)

text \<open>The pass of the source over its mock target: the content changed, no
  recommendation is found in the page, an alert is sent.\<close>

lemma mock_pass:
  "getProp (body_json (fst (runDailyMonitoring clock0 0))) ''summary''
     = Some (JObj [(''totalChecked'', JNum 1), (''contentChanges'', JNum 1),
                   (''recommendationsImplemented'', JNum 0)]) \<and>
   map (\<lambda>n. getProp n ''type'') (sent (snd (runDailyMonitoring clock0 0)))
     = [Some (JStr ''content_change_alert'')]"
proof -
  have no_match: "filter (isRecommendationImplemented mock_markdown)
      (recommendations (hd (fst (mockTargets clock0 0)))) = []"
    by code_simp
  have changed: "generateContentHash mock_metadata mock_markdown
      \<noteq> lastContentHash (hd (fst (mockTargets clock0 0)))"
    by (rule generateContentHash_neq_short) (simp add: mockTargets_def)
  have one: "fst (mockTargets clock0 0) = [hd (fst (mockTargets clock0 0))]"
    by (simp add: mockTargets_def)
  have "runDailyMonitoring clock0 0
      = runDailyMonitoring_on (checkWebsiteChanges clock0) clock0 (fst (mockTargets clock0 0)) 1"
    by (simp add: runDailyMonitoring_def mockTargets_def)
  then have run: "runDailyMonitoring clock0 0
      = runDailyMonitoring_on (checkWebsiteChanges clock0) clock0 [hd (fst (mockTargets clock0 0))] 1"
    using one by simp
  have res: "map (\<lambda>r. (contentChanged r, recommendationsImplemented r))
      (results (snd (runDailyMonitoring clock0 0))) = [(True, False)]"
    unfolding run run_results using changed no_match
    by (simp add: initial_state_def monitorTarget_def checkWebsiteChanges_def
        checkWebsiteChanges_on_eq)
  have sent: "map (\<lambda>n. getProp n ''type'') (sent (snd (runDailyMonitoring clock0 0)))
      = [Some (JStr ''content_change_alert'')]"
    unfolding run run_sent using changed no_match
    by (simp add: initial_state_def monitorTarget_def checkWebsiteChanges_def
        checkWebsiteChanges_on_eq notify_def sendContentChangeAlert_def)
  have "map contentChanged (results (snd (runDailyMonitoring clock0 0))) = [True]"
    using arg_cong [OF res, of "map fst"] by (simp add: comp_def)
  moreover have "map recommendationsImplemented (results (snd (runDailyMonitoring clock0 0))) = [False]"
    using arg_cong [OF res, of "map snd"] by (simp add: comp_def)
  ultimately have counts: "length (results (snd (runDailyMonitoring clock0 0))) = 1"
    "length (filter contentChanged (results (snd (runDailyMonitoring clock0 0)))) = 1"
    "length (filter recommendationsImplemented (results (snd (runDailyMonitoring clock0 0)))) = 0"
    by (auto simp: map_eq_Cons_conv)
  have "getProp (body_json (fst (runDailyMonitoring clock0 0))) ''summary''
     = Some (summary_json (results (snd (runDailyMonitoring clock0 0))))"
    unfolding run by (rule run_summary)
  with counts sent show ?thesis
    by (simp add: summary_json_def)
qed

end
